theory Spec2Isabelle
  imports Complex_Main
begin

section \<open>JavaScript values\<close>

text \<open>
  The values the client handles come out of a parsed JSON response body, plus
  \<open>undefined\<close>, which a property read on a missing key produces. A number is its exact
  rational value. \<open>JObj\<close> lists the own properties of an object in the order in which
  \<open>Object.entries\<close> enumerates them; a key occurs once.
\<close>

datatype jsval =
    JUndefined
  | JNull
  | JBool bool
  | JNum rat
  | JStr string
  | JArr "jsval list"
  | JObj "(string \<times> jsval) list"

text \<open>ToBoolean: what \<open>if (v)\<close>, \<open>v ? a : b\<close> and \<open>v || w\<close> test.\<close>

fun truthy :: "jsval \<Rightarrow> bool" where
  "truthy JUndefined = False"
| "truthy JNull = False"
| "truthy (JBool b) = b"
| "truthy (JNum r) = (r \<noteq> 0)"
| "truthy (JStr s) = (s \<noteq> [])"
| "truthy (JArr xs) = True"
| "truthy (JObj kvs) = True"

text \<open>
  An exception thrown inside the \<open>try\<close> block of \<open>onDrop\<close>, as the \<open>catch\<close> clause sees
  it: \<open>err.code\<close>, \<open>err.response?.status\<close> and \<open>err.message\<close>. An error without a
  response (a timeout, a network failure, a \<open>TypeError\<close>) has \<open>err_status = None\<close>.
\<close>

record js_error =
  err_code :: "string option"
  err_status :: "nat option"
  err_message :: string

definition TypeError :: "string \<Rightarrow> js_error" where
  "TypeError msg = \<lparr>err_code = None, err_status = None, err_message = msg\<rparr>"

text \<open>
  \<open>v.k\<close>: reading a property of \<open>undefined\<close> or \<open>null\<close> throws a \<open>TypeError\<close> (its message
  in the wording of V8); an object gives the property's value, or \<open>undefined\<close> when it has
  no such key; for the keys read by this program every other value gives \<open>undefined\<close>.
\<close>

definition quoted :: "string \<Rightarrow> string" where
  "quoted k = [CHR 0x27] @ k @ [CHR 0x27]"

fun get_prop :: "jsval \<Rightarrow> string \<Rightarrow> js_error + jsval" where
  "get_prop JUndefined k =
     Inl (TypeError (''Cannot read properties of undefined (reading '' @ quoted k @ '')''))"
| "get_prop JNull k =
     Inl (TypeError (''Cannot read properties of null (reading '' @ quoted k @ '')''))"
| "get_prop (JObj kvs) k = Inr (case map_of kvs k of None \<Rightarrow> JUndefined | Some v \<Rightarrow> v)"
| "get_prop v k = Inr JUndefined"


section \<open>Records of processed files\<close>

text \<open>
  The object literal built in \<open>onDrop\<close> for every entry of a response. The record's
  \<open>id\<close> is a double that is a multiple of \<open>2\<^sup>-\<^sup>5\<^sup>3\<close>; the field \<open>file_id\<close> holds it in that
  unit, so \<open>file_id = n\<close> stands for the number \<open>n / 2\<^sup>5\<^sup>3\<close>. The field \<open>file_error\<close> is
  the record's \<open>error\<close>.
\<close>

record file_rec =
  file_id :: nat
  originalName :: string
  renamed :: jsval
  category :: jsval
  subcategory :: jsval
  preview :: jsval
  metadata :: jsval
  idValidation :: jsval
  dateValidation :: jsval
  hasError :: bool
  file_error :: jsval

section \<open>The validation indicator\<close>








section \<open>Building records from a response\<close>

text \<open>Sequencing inside the \<open>try\<close> block: the first exception ends it.\<close>

definition try_bind :: "js_error + 'a \<Rightarrow> ('a \<Rightarrow> js_error + 'b) \<Rightarrow> js_error + 'b" where
  "try_bind m f = (case m of Inl e \<Rightarrow> Inl e | Inr x \<Rightarrow> f x)"

text \<open>A natural number as decimal digits: the keys of an array, the parts of a date.\<close>

definition digit_char :: "nat \<Rightarrow> char" where
  "digit_char d = ''0123456789'' ! d"

fun show_nat :: "nat \<Rightarrow> string" where
  "show_nat n = (if n < 10 then [digit_char n] else show_nat (n div 10) @ [digit_char (n mod 10)])"

declare show_nat.simps [simp del]

text \<open>
  \<open>Object.entries(v)\<close>: throws on \<open>undefined\<close> and \<open>null\<close>; the properties of an object in
  enumeration order; the indexed elements of an array or of a string; nothing for a
  boolean or a number.
\<close>

fun Object_entries :: "jsval \<Rightarrow> js_error + (string \<times> jsval) list" where
  "Object_entries JUndefined = Inl (TypeError ''Cannot convert undefined or null to object'')"
| "Object_entries JNull = Inl (TypeError ''Cannot convert undefined or null to object'')"
| "Object_entries (JObj kvs) = Inr kvs"
| "Object_entries (JArr xs) = Inr (zip (map show_nat [0..<length xs]) xs)"
| "Object_entries (JStr s) = Inr (zip (map show_nat [0..<length s]) (map (\<lambda>c. JStr [c]) s))"
| "Object_entries (JBool b) = Inr []"
| "Object_entries (JNum r) = Inr []"

text \<open>
  \<open>Date.now() + Math.random()\<close>. \<open>Date.now()\<close> is a whole number \<open>now\<close> of milliseconds;
  \<open>Math.random()\<close> is a double in \<open>[0, 1)\<close>, in the engines a multiple of \<open>2\<^sup>-\<^sup>5\<^sup>3\<close>, given
  here as its numerator \<open>rnd < 2\<^sup>5\<^sup>3\<close>. In the unit \<open>2\<^sup>-\<^sup>5\<^sup>3\<close> the exact sum is the natural
  number \<open>now * 2\<^sup>5\<^sup>3 + rnd\<close>, and the double addition rounds it to 53 significant bits,
  to nearest, ties to even.
\<close>

fun bit_length :: "nat \<Rightarrow> nat" where
  "bit_length n = (if n = 0 then 0 else Suc (bit_length (n div 2)))"

declare bit_length.simps [simp del]

definition round53 :: "nat \<Rightarrow> nat" where
  "round53 n =
     (let d = bit_length n - 53; q = n div 2 ^ d; r = n mod 2 ^ d
      in if 2 * r > 2 ^ d \<or> (2 * r = 2 ^ d \<and> odd q) then (q + 1) * 2 ^ d else q * 2 ^ d)"

definition new_id :: "nat \<times> nat \<Rightarrow> nat" where
  "new_id smp = (case smp of (now, rnd) \<Rightarrow> round53 (now * 2 ^ 53 + rnd))"

text \<open>
  The body of the \<open>map\<close> callback: one record from one entry \<open>[name, data]\<close>, with the
  clock reading and the random draw \<open>smp\<close> of this call. The property reads on \<open>data\<close>
  happen in the order of the literal; \<open>data.metadata || {}\<close> and \<open>data.error ? true : false\<close>
  go by truthiness.
\<close>

definition make_file :: "nat \<times> nat \<Rightarrow> string \<times> jsval \<Rightarrow> js_error + file_rec" where
  "make_file smp entry =
     (case entry of (name, data) \<Rightarrow>
        try_bind (get_prop data ''renamed'') (\<lambda>v_renamed.
        try_bind (get_prop data ''category'') (\<lambda>v_category.
        try_bind (get_prop data ''subcategory'') (\<lambda>v_subcategory.
        try_bind (get_prop data ''text'') (\<lambda>v_text.
        try_bind (get_prop data ''metadata'') (\<lambda>v_metadata.
        try_bind (get_prop data ''id_validation'') (\<lambda>v_idv.
        try_bind (get_prop data ''date_validation'') (\<lambda>v_datev.
        try_bind (get_prop data ''error'') (\<lambda>v_error.
          Inr \<lparr>file_id = new_id smp,
               originalName = name,
               renamed = v_renamed,
               category = v_category,
               subcategory = v_subcategory,
               preview = v_text,
               metadata = (if truthy v_metadata then v_metadata else JObj []),
               idValidation = v_idv,
               dateValidation = v_datev,
               hasError = (if truthy v_error then True else False),
               file_error = v_error\<rparr>)))))))))"

text \<open>
  \<open>entries.map(callback)\<close>, left to right; \<open>env k\<close> is the clock reading and the random
  draw during the call for the entry at index \<open>k\<close>.
\<close>

fun map_entries ::
  "(nat \<Rightarrow> nat \<times> nat) \<Rightarrow> nat \<Rightarrow> (string \<times> jsval) list \<Rightarrow> js_error + file_rec list" where
  "map_entries env k [] = Inr []"
| "map_entries env k (e # es) =
     try_bind (make_file (env k) e) (\<lambda>f.
     try_bind (map_entries env (Suc k) es) (\<lambda>fs. Inr (f # fs)))"

definition newFiles :: "(nat \<Rightarrow> nat \<times> nat) \<Rightarrow> jsval \<Rightarrow> js_error + file_rec list" where
  "newFiles env data = try_bind (Object_entries data) (map_entries env 0)"

section \<open>The session state and its handlers\<close>

text \<open>The four \<open>useState\<close> cells of the component.\<close>

record app_state =
  files :: "file_rec list"
  loading :: bool
  error :: "string option"
  selectedFile :: "file_rec option"

definition initial_state :: app_state where
  "initial_state = \<lparr>files = [], loading = False, error = None, selectedFile = None\<rparr>"

text \<open>A dropped file as the client sees it, and the request \<open>axios.post\<close> sends.\<close>

record file_blob =
  file_name :: string
  file_type :: string
  file_size :: nat

record request =
  url :: string
  form_files :: "file_blob list"
  content_type :: string
  timeout :: nat

definition API_BASE_URL :: string where
  "API_BASE_URL = ''http://localhost:8000''"

definition classify_request :: "file_blob list \<Rightarrow> request" where
  "classify_request acceptedFiles =
     \<lparr>url = API_BASE_URL @ ''/classify'', form_files = acceptedFiles,
      content_type = ''multipart/form-data'', timeout = 30000\<rparr>"

text \<open>The \<open>catch\<close> clause: the message shown for an exception of the \<open>try\<close> block.\<close>

definition timeout_message :: string where
  "timeout_message =
     ''Request timeout - please try with smaller files or fewer files at once''"

definition format_message :: string where
  "format_message = ''Invalid file format - please upload PDF, PNG, JPG, or JPEG files''"

definition server_message :: string where
  "server_message = ''Server error - please check if the backend is running''"

definition catch_message :: "js_error \<Rightarrow> string" where
  "catch_message err =
     (if err_code err = Some ''ECONNABORTED'' then timeout_message
      else if err_status err = Some 422 then format_message
      else if (case err_status err of None \<Rightarrow> False | Some status \<Rightarrow> status \<ge> 500)
        then server_message
      else ''Classification failed: '' @ err_message err)"

text \<open>
  \<open>onDrop\<close> in its two halves: what runs before the request is awaited, and what runs
  when the request has settled with \<open>outcome\<close> (the response body, or the exception of
  \<open>axios.post\<close>). \<open>setFiles\<close> gets an updater, so the append is to the collection as it
  is when the response arrives.
\<close>

definition onDrop_begin :: "app_state \<Rightarrow> app_state" where
  "onDrop_begin st = st\<lparr>loading := True, error := None\<rparr>"

definition onDrop_settle ::
  "(nat \<Rightarrow> nat \<times> nat) \<Rightarrow> js_error + jsval \<Rightarrow> app_state \<Rightarrow> app_state" where
  "onDrop_settle env outcome st =
     (case try_bind outcome (newFiles env) of
        Inr new \<Rightarrow> st\<lparr>files := files st @ new, loading := False\<rparr>
      | Inl err \<Rightarrow> st\<lparr>error := Some (catch_message err), loading := False\<rparr>)"

text \<open>
  The other handlers. \<open>removeFile\<close> has a block body without \<open>return\<close>: its value is
  \<open>undefined\<close>, given here beside the new state.
\<close>

definition clearFiles :: "app_state \<Rightarrow> app_state" where
  "clearFiles st = st\<lparr>files := [], error := None\<rparr>"

definition removeFile :: "nat \<Rightarrow> app_state \<Rightarrow> jsval \<times> app_state" where
  "removeFile fileId st = (JUndefined, st\<lparr>files := filter (\<lambda>f. file_id f \<noteq> fileId) (files st)\<rparr>)"

definition setSelectedFile :: "file_rec option \<Rightarrow> app_state \<Rightarrow> app_state" where
  "setSelectedFile sel st = st\<lparr>selectedFile := sel\<rparr>"

definition setError :: "string option \<Rightarrow> app_state \<Rightarrow> app_state" where
  "setError e st = st\<lparr>error := e\<rparr>"

text \<open>
  What can happen to the component, one event at a time: a submission starts, a pending
  request settles, and the buttons of the page (clear all, remove a record, open the
  preview of the record shown at a position of the collection, close the preview,
  dismiss the error). Each handler runs to its end before the next event.
\<close>

datatype event =
    Drop_begin
  | Drop_settle "nat \<Rightarrow> nat \<times> nat" "js_error + jsval"
  | Clear_files
  | Remove_file nat
  | Select_file nat
  | Close_preview
  | Dismiss_error

fun step :: "event \<Rightarrow> app_state \<Rightarrow> app_state" where
  "step Drop_begin st = onDrop_begin st"
| "step (Drop_settle env outcome) st = onDrop_settle env outcome st"
| "step Clear_files st = clearFiles st"
| "step (Remove_file fileId) st = snd (removeFile fileId st)"
| "step (Select_file k) st =
     (if k < length (files st) then setSelectedFile (Some (files st ! k)) st else st)"
| "step Close_preview st = setSelectedFile None st"
| "step Dismiss_error st = setError None st"

fun run :: "event list \<Rightarrow> app_state \<Rightarrow> app_state" where
  "run [] st = st"
| "run (ev # evs) st = run evs (step ev st)"

text \<open>
  A whole submission: \<open>post\<close> is the network and the backend as \<open>axios.post\<close> sees them.
  The request is awaited, and the drop zone stays enabled meanwhile, so the events
  \<open>between\<close> are handled in the gap, other submissions among them. The result is the
  list of requests this submission sends and the state after it has settled.
\<close>

definition onDrop ::
  "(request \<Rightarrow> js_error + jsval) \<Rightarrow> (nat \<Rightarrow> nat \<times> nat) \<Rightarrow> file_blob list \<Rightarrow> event list
     \<Rightarrow> app_state \<Rightarrow> request list \<times> app_state" where
  "onDrop post env acceptedFiles between st =
     (let req = classify_request acceptedFiles
      in ([req], onDrop_settle env (post req) (run between (onDrop_begin st))))"





section \<open>Export\<close>

text \<open>
  A JSON document, as the text \<open>JSON.stringify\<close> writes denotes it: the layout of the
  text (the indentation by two spaces) is left out. \<open>JSON_stringify\<close> gives no document
  for \<open>undefined\<close>; inside an object a property whose value is \<open>undefined\<close> is left out,
  and inside an array \<open>undefined\<close> is written \<open>null\<close>.
\<close>

datatype json =
    TNull
  | TBool bool
  | TNum rat
  | TStr string
  | TArr "json list"
  | TObj "(string \<times> json) list"

fun JSON_stringify :: "jsval \<Rightarrow> json option"
  and stringify_elems :: "jsval list \<Rightarrow> json list"
  and stringify_props :: "(string \<times> jsval) list \<Rightarrow> (string \<times> json) list" where
  "JSON_stringify JUndefined = None"
| "JSON_stringify JNull = Some TNull"
| "JSON_stringify (JBool b) = Some (TBool b)"
| "JSON_stringify (JNum r) = Some (TNum r)"
| "JSON_stringify (JStr s) = Some (TStr s)"
| "JSON_stringify (JArr xs) = Some (TArr (stringify_elems xs))"
| "JSON_stringify (JObj kvs) = Some (TObj (stringify_props kvs))"
| "stringify_elems [] = []"
| "stringify_elems (x # xs) =
     (case JSON_stringify x of None \<Rightarrow> TNull | Some j \<Rightarrow> j) # stringify_elems xs"
| "stringify_props [] = []"
| "stringify_props (kv # kvs) =
     (case JSON_stringify (snd kv) of
        None \<Rightarrow> stringify_props kvs
      | Some j \<Rightarrow> (fst kv, j) # stringify_props kvs)"









section \<open>The aggregator as the specification describes it\<close>

text \<open>
  What an entry of a response carries under a key: the value of the first property of
  that name, and \<open>undefined\<close>, the absent value, when the entry has no such property or
  is not an object.
\<close>

definition entry_field :: "jsval \<Rightarrow> string \<Rightarrow> jsval" where
  "entry_field data k =
     (case data of
        JObj kvs \<Rightarrow> (case find (\<lambda>kv. fst kv = k) kvs of None \<Rightarrow> JUndefined | Some kv \<Rightarrow> snd kv)
      | _ \<Rightarrow> JUndefined)"

text \<open>
  A value that counts as none: absent (\<open>undefined\<close> or \<open>null\<close>), or \<open>false\<close>, zero or the
  empty string.
\<close>

definition counts_as_none :: "jsval \<Rightarrow> bool" where
  "counts_as_none v = (v \<in> set [JUndefined, JNull, JBool False, JNum 0, JStr []])"

text \<open>
  The record of one entry with a given id: \<open>text\<close> becomes \<open>preview\<close>, \<open>id_validation\<close>
  becomes \<open>idValidation\<close>, \<open>date_validation\<close> becomes \<open>dateValidation\<close>; the error is
  kept, and \<open>hasError\<close> says that it does not count as none; a \<open>metadata\<close> that counts as
  none becomes the empty object. Every other field is taken over as it is, absent when
  the entry lacks it.
\<close>

definition record_of :: "nat \<Rightarrow> string \<times> jsval \<Rightarrow> file_rec" where
  "record_of i entry =
     \<lparr>file_id = i,
      originalName = fst entry,
      renamed = entry_field (snd entry) ''renamed'',
      category = entry_field (snd entry) ''category'',
      subcategory = entry_field (snd entry) ''subcategory'',
      preview = entry_field (snd entry) ''text'',
      metadata = (if counts_as_none (entry_field (snd entry) ''metadata'') then JObj []
                  else entry_field (snd entry) ''metadata''),
      idValidation = entry_field (snd entry) ''id_validation'',
      dateValidation = entry_field (snd entry) ''date_validation'',
      hasError = (\<not> counts_as_none (entry_field (snd entry) ''error'')),
      file_error = entry_field (snd entry) ''error''\<rparr>"

fun records_from :: "(nat \<Rightarrow> nat \<times> nat) \<Rightarrow> nat \<Rightarrow> (string \<times> jsval) list \<Rightarrow> file_rec list" where
  "records_from env k [] = []"
| "records_from env k (e # es) = record_of (new_id (env k)) e # records_from env (Suc k) es"

text \<open>
  A batch response: an object whose entries are there (an entry may lack any of its
  fields, but is not \<open>null\<close>). \<open>entries_of\<close> is its iteration order.
\<close>

definition entry_present :: "string \<times> jsval \<Rightarrow> bool" where
  "entry_present e = (snd e \<noteq> JNull \<and> snd e \<noteq> JUndefined)"

definition batch_response :: "jsval \<Rightarrow> bool" where
  "batch_response data = (case data of JObj kvs \<Rightarrow> list_all entry_present kvs | _ \<Rightarrow> False)"

definition entries_of :: "jsval \<Rightarrow> (string \<times> jsval) list" where
  "entries_of data = (case data of JObj kvs \<Rightarrow> kvs | _ \<Rightarrow> [])"

text \<open>
  A sequence of appends: each response arrives with the clock readings and random draws
  of its own \<open>map\<close> and is handled by the success path of \<open>onDrop\<close>.
\<close>

fun append_all :: "((nat \<Rightarrow> nat \<times> nat) \<times> jsval) list \<Rightarrow> app_state \<Rightarrow> app_state" where
  "append_all [] st = st"
| "append_all (r # rs) st = append_all rs (onDrop_settle (fst r) (Inr (snd r)) st)"

fun appended :: "((nat \<Rightarrow> nat \<times> nat) \<times> jsval) list \<Rightarrow> file_rec list" where
  "appended [] = []"
| "appended (r # rs) = records_from (fst r) 0 (entries_of (snd r)) @ appended rs"

text \<open>An event that is the settlement of a request in failure.\<close>

definition settles_in_failure :: "event \<Rightarrow> bool" where
  "settles_in_failure ev =
     (case ev of
        Drop_settle env outcome \<Rightarrow>
          (case try_bind outcome (newFiles env) of Inl err \<Rightarrow> True | Inr new \<Rightarrow> False)
      | _ \<Rightarrow> False)"





section \<open>Sample data\<close>

text \<open>
  The response of the specification's end-to-end scenario, a response with one entry that
  has no fields at all, and the clock and random source of a \<open>map\<close> that runs within one
  millisecond and draws \<open>0.5\<close>, \<open>0.5 + 2\<^sup>-\<^sup>1\<^sup>5\<close> (that is \<open>0.500030517578125\<close>), and so on.
\<close>

definition scenario_response :: jsval where
  "scenario_response =
     JObj [(''a.pdf'', JObj [(''category'', JStr ''ID''), (''subcategory'', JStr ''Passport''),
                             (''text'', JStr ''...''),
                             (''id_validation'',
                                JObj [(''is_valid'', JBool True), (''id_type'', JStr ''Passport''),
                                      (''confidence'', JNum (95 / 100))])]),
           (''b.png'', JObj [(''category'', JStr ''Income''), (''subcategory'', JStr ''Paystub''),
                             (''text'', JStr ''...''), (''error'', JNull)])]"

definition bare_response :: jsval where
  "bare_response = JObj [(''c.pdf'', JObj [])]"

definition one_millisecond :: "nat \<Rightarrow> nat \<times> nat" where
  "one_millisecond k = (1700000000000, 2 ^ 52 + k * 2 ^ 38)"

definition scenario_state :: app_state where
  "scenario_state = onDrop_settle one_millisecond (Inr scenario_response) initial_state"


definition bare_record :: file_rec where
  "bare_record = record_of (new_id (one_millisecond 0)) (''c.pdf'', JObj [])"

definition bare_state :: app_state where
  "bare_state = onDrop_settle one_millisecond (Inr bare_response) initial_state"

definition previewing_state :: app_state where
  "previewing_state = setSelectedFile (Some bare_record) bare_state"

text \<open>
  Errors as \<open>axios\<close> raises them: on expiry of the timeout, on a response with a status
  outside 2xx, and when the network fails.
\<close>

definition timeout_error :: js_error where
  "timeout_error =
     \<lparr>err_code = Some ''ECONNABORTED'', err_status = None,
      err_message = ''timeout of 30000ms exceeded''\<rparr>"

definition http_error :: "nat \<Rightarrow> js_error" where
  "http_error status =
     \<lparr>err_code = (if 400 \<le> status \<and> status < 500 then Some ''ERR_BAD_REQUEST''
                  else if 500 \<le> status \<and> status < 600 then Some ''ERR_BAD_RESPONSE''
                  else None),
      err_status = Some status,
      err_message = ''Request failed with status code '' @ show_nat status\<rparr>"

definition network_error :: js_error where
  "network_error =
     \<lparr>err_code = Some ''ERR_NETWORK'', err_status = None, err_message = ''Network Error''\<rparr>"

text \<open>
  Two files, the second over the size limit; a type matcher that lets every type pass; a
  state that shows an earlier error.
\<close>

definition small_pdf :: file_blob where
  "small_pdf = \<lparr>file_name = ''a.pdf'', file_type = ''application/pdf'', file_size = 1024\<rparr>"



definition stale_state :: app_state where
  "stale_state = setError (Some ''stale'') bare_state"

text \<open>
  A response whose entry failed with a message and carries metadata, and one whose entry
  carries the empty string as its error; a later millisecond; a state with two records
  of different ids, the first of them previewed; a date in the year 10000.
\<close>

definition failed_response :: jsval where
  "failed_response =
     JObj [(''bad.pdf'', JObj [(''renamed'', JStr ''error_bad.pdf''), (''category'', JStr ''Error''),
                               (''metadata'', JObj [(''client_name'', JStr ''Ann'')]),
                               (''error'', JStr ''OCR failed'')])]"

definition empty_error_response :: jsval where
  "empty_error_response = JObj [(''d.pdf'', JObj [(''category'', JStr ''Other''), (''error'', JStr [])])]"

definition later_millisecond :: "nat \<Rightarrow> nat \<times> nat" where
  "later_millisecond k = (1700000000001, 2 ^ 52 + k * 2 ^ 38)"

definition failed_record :: file_rec where
  "failed_record =
     record_of (new_id (later_millisecond 0)) (hd (entries_of failed_response))"

definition two_records_state :: app_state where
  "two_records_state =
     run [Drop_begin, Drop_settle one_millisecond (Inr bare_response),
          Drop_begin, Drop_settle later_millisecond (Inr failed_response),
          Select_file 0] initial_state"



definition null_entry_response :: jsval where
  "null_entry_response = JObj [(''x.pdf'', JNull)]"


section \<open>Properties\<close>





subsection \<open>Appending a response\<close>

lemma map_of_find: "map_of kvs k = map_option snd (find (\<lambda>kv. fst kv = k) kvs)"
  by (induction kvs) auto

lemma get_prop_present:
  "v \<noteq> JNull \<Longrightarrow> v \<noteq> JUndefined \<Longrightarrow> get_prop v k = Inr (entry_field v k)"
  by (cases v) (simp_all add: entry_field_def map_of_find split: option.splits)

lemma truthy_counts: "truthy v = (\<not> counts_as_none v)"
  by (cases v) (auto simp: counts_as_none_def)

lemma make_file_present:
  "entry_present e \<Longrightarrow> make_file smp e = Inr (record_of (new_id smp) e)"
  by (cases e)
    (simp add: entry_present_def make_file_def record_of_def get_prop_present try_bind_def
       truthy_counts)

lemma map_entries_present:
  "list_all entry_present es \<Longrightarrow> map_entries env k es = Inr (records_from env k es)"
  by (induction es arbitrary: k) (simp_all add: make_file_present try_bind_def)

lemma newFiles_batch:
  "batch_response data \<Longrightarrow> newFiles env data = Inr (records_from env 0 (entries_of data))"
  by (cases data)
    (simp_all add: batch_response_def newFiles_def entries_of_def try_bind_def
       map_entries_present)

lemma onDrop_settle_batch:
  "batch_response data \<Longrightarrow>
   onDrop_settle env (Inr data) st =
     st\<lparr>files := files st @ records_from env 0 (entries_of data), loading := False\<rparr>"
  by (simp add: onDrop_settle_def try_bind_def newFiles_batch)

lemma originalName_records_from: "map originalName (records_from env k es) = map fst es"
  by (induction es arbitrary: k) (simp_all add: record_of_def)

lemma length_records_from: "length (records_from env k es) = length es"
  by (induction es arbitrary: k) simp_all

lemma files_append_all:
  "list_all (\<lambda>r. batch_response (snd r)) rs \<Longrightarrow>
   files (append_all rs st) = files st @ appended rs \<and> error (append_all rs st) = error st"
  by (induction rs arbitrary: st) (simp_all add: onDrop_settle_batch)

lemma originalName_appended:
  "map originalName (appended rs) = concat (map (\<lambda>r. map fst (entries_of (snd r))) rs)"
  by (induction rs) (simp_all add: originalName_records_from)

lemma sample_batches:
  "batch_response scenario_response" "batch_response bare_response"
  "batch_response failed_response" "batch_response empty_error_response"
  by (simp_all add: batch_response_def scenario_response_def bare_response_def
        failed_response_def empty_error_response_def entry_present_def)

text \<open>
  C2, amended. One append turns every entry of a batch response into its record: \<open>text\<close>
  becomes \<open>preview\<close>, \<open>id_validation\<close> becomes \<open>idValidation\<close>, \<open>date_validation\<close> becomes
  \<open>dateValidation\<close>, the other fields are taken over, the error is kept with \<open>hasError\<close>
  true exactly when it is present and is not \<open>null\<close>, \<open>false\<close>, zero or the empty string,
  and a \<open>metadata\<close> that is absent becomes the empty object. The new records are put
  behind the collection, in the response's iteration order. After any sequence of
  appends the collection is the old one followed by the records of each response in
  call order, so its names are the concatenation of the responses' iteration orders; no
  append of the sequence is rejected (none sets the error), whatever fields the entries
  lack.
\<close>

theorem append_in_response_order:
  assumes "list_all (\<lambda>r. batch_response (snd r)) rs"
  shows "files (append_all rs st) = files st @ appended rs \<and>
    map originalName (files (append_all rs st)) =
      map originalName (files st) @ concat (map (\<lambda>r. map fst (entries_of (snd r))) rs) \<and>
    error (append_all rs st) = error st \<and>
    (\<forall>env data. batch_response data \<longrightarrow>
       onDrop_settle env (Inr data) st =
         st\<lparr>files := files st @ records_from env 0 (entries_of data), loading := False\<rparr>)"
  using files_append_all [OF assms, of st]
  by (simp add: originalName_appended onDrop_settle_batch)

text \<open>
  Three responses in a row: the scenario's, one whose entry failed and carries metadata,
  and one whose entry has no fields. The fields that are there are taken over, the
  others are absent.
\<close>

theorem append_in_response_order_witness:
  "list_all (\<lambda>r. batch_response (snd r))
     [(one_millisecond, scenario_response), (later_millisecond, failed_response),
      (one_millisecond, bare_response)] \<and>
   map originalName (files (append_all
     [(one_millisecond, scenario_response), (later_millisecond, failed_response),
      (one_millisecond, bare_response)] initial_state))
     = [''a.pdf'', ''b.png'', ''bad.pdf'', ''c.pdf''] \<and>
   map preview (files (append_all
     [(one_millisecond, scenario_response), (later_millisecond, failed_response),
      (one_millisecond, bare_response)] initial_state))
     = [JStr ''...'', JStr ''...'', JUndefined, JUndefined] \<and>
   map category (files (append_all
     [(one_millisecond, scenario_response), (later_millisecond, failed_response),
      (one_millisecond, bare_response)] initial_state))
     = [JStr ''ID'', JStr ''Income'', JStr ''Error'', JUndefined] \<and>
   map renamed (files (append_all
     [(one_millisecond, scenario_response), (later_millisecond, failed_response),
      (one_millisecond, bare_response)] initial_state))
     = [JUndefined, JUndefined, JStr ''error_bad.pdf'', JUndefined] \<and>
   map idValidation (files (append_all
     [(one_millisecond, scenario_response), (later_millisecond, failed_response),
      (one_millisecond, bare_response)] initial_state))
     = [JObj [(''is_valid'', JBool True), (''id_type'', JStr ''Passport''),
              (''confidence'', JNum (95 / 100))], JUndefined, JUndefined, JUndefined] \<and>
   map metadata (files (append_all
     [(one_millisecond, scenario_response), (later_millisecond, failed_response),
      (one_millisecond, bare_response)] initial_state))
     = [JObj [], JObj [], JObj [(''client_name'', JStr ''Ann'')], JObj []] \<and>
   map hasError (files (append_all
     [(one_millisecond, scenario_response), (later_millisecond, failed_response),
      (one_millisecond, bare_response)] initial_state))
     = [False, False, True, False] \<and>
   map file_error (files (append_all
     [(one_millisecond, scenario_response), (later_millisecond, failed_response),
      (one_millisecond, bare_response)] initial_state))
     = [JUndefined, JNull, JStr ''OCR failed'', JUndefined]"
proof -
  have ok: "list_all (\<lambda>r. batch_response (snd r))
     [(one_millisecond, scenario_response), (later_millisecond, failed_response),
      (one_millisecond, bare_response)]"
    by (simp add: sample_batches)
  note app = append_in_response_order [OF ok, of initial_state, THEN conjunct1]
  have fs: "files (append_all
     [(one_millisecond, scenario_response), (later_millisecond, failed_response),
      (one_millisecond, bare_response)] initial_state)
     = appended [(one_millisecond, scenario_response), (later_millisecond, failed_response),
      (one_millisecond, bare_response)]"
    unfolding app by (simp add: initial_state_def)
  show ?thesis
    unfolding fs
    apply (intro conjI)
            apply (rule ok)
           apply (simp_all add: entries_of_def scenario_response_def failed_response_def
        bare_response_def record_of_def entry_field_def counts_as_none_def)
    done
qed

text \<open>
  The claim as stated fails where an error is present and empty: the record keeps the
  empty string as its error, and \<open>hasError\<close> is false.
\<close>

theorem empty_error_counterexample:
  "entries_of empty_error_response =
     [(''d.pdf'', JObj [(''category'', JStr ''Other''), (''error'', JStr [])])] \<and>
   map file_error (files (append_all [(one_millisecond, empty_error_response)] initial_state))
     = [JStr []] \<and>
   map hasError (files (append_all [(one_millisecond, empty_error_response)] initial_state))
     = [False]"
  by (simp add: entries_of_def empty_error_response_def onDrop_settle_def newFiles_def
        try_bind_def make_file_def initial_state_def)

subsection \<open>The error mapping\<close>

lemma messages_distinct:
  "timeout_message \<noteq> format_message \<and> timeout_message \<noteq> server_message \<and>
   format_message \<noteq> server_message \<and>
   timeout_message \<noteq> ''Classification failed: '' @ m \<and>
   format_message \<noteq> ''Classification failed: '' @ m \<and>
   server_message \<noteq> ''Classification failed: '' @ m"
  by (simp add: timeout_message_def format_message_def server_message_def)

text \<open>
  C4. The request carries the timeout of 30000 ms, and a failed submission maps to exactly
  one of four messages: the timeout message for an error with the code of an expired
  timeout; otherwise the format message for status 422; otherwise the server message for
  a status of 500 or more; otherwise \<open>Classification failed:\<close> followed by the error's own
  message. The four messages are pairwise different.
\<close>

theorem catch_message_mapping:
  "(err_code err = Some ''ECONNABORTED'' \<longrightarrow> catch_message err = timeout_message) \<and>
   (err_code err \<noteq> Some ''ECONNABORTED'' \<and> err_status err = Some 422 \<longrightarrow>
      catch_message err = format_message) \<and>
   (\<forall>status. err_code err \<noteq> Some ''ECONNABORTED'' \<and> err_status err = Some status \<and>
      status \<ge> 500 \<longrightarrow> catch_message err = server_message) \<and>
   (err_code err \<noteq> Some ''ECONNABORTED'' \<and>
      (err_status err = None \<or>
       (\<exists>status. err_status err = Some status \<and> status \<noteq> 422 \<and> status < 500)) \<longrightarrow>
      catch_message err = ''Classification failed: '' @ err_message err) \<and>
   timeout (classify_request acceptedFiles) = 30000 \<and>
   timeout_message \<noteq> format_message \<and> timeout_message \<noteq> server_message \<and>
   format_message \<noteq> server_message \<and>
   timeout_message \<noteq> ''Classification failed: '' @ m \<and>
   format_message \<noteq> ''Classification failed: '' @ m \<and>
   server_message \<noteq> ''Classification failed: '' @ m"
  using messages_distinct [of m]
  by (auto simp: catch_message_def classify_request_def)

theorem catch_message_mapping_witness:
  "catch_message timeout_error = timeout_message \<and>
   catch_message (http_error 422) = format_message \<and>
   catch_message (http_error 503) = server_message \<and>
   catch_message network_error = ''Classification failed: Network Error'' \<and>
   catch_message (http_error 404) = ''Classification failed: '' @ err_message (http_error 404)"
proof -
  have a: "catch_message timeout_error = timeout_message"
    using catch_message_mapping [of timeout_error] by (simp add: timeout_error_def)
  have b: "catch_message (http_error 422) = format_message"
    using catch_message_mapping [of "http_error 422"] by (simp add: http_error_def)
  have c: "catch_message (http_error 503) = server_message"
    using catch_message_mapping [of "http_error 503"] by (simp add: http_error_def)
  have d: "catch_message network_error = ''Classification failed: Network Error''"
    using catch_message_mapping [of network_error] by (simp add: network_error_def)
  have e: "catch_message (http_error 404) = ''Classification failed: '' @ err_message (http_error 404)"
    using catch_message_mapping [of "http_error 404"] by (simp add: http_error_def)
  from a b c d e show ?thesis by simp
qed

subsection \<open>Failure and success of a submission\<close>

lemma bare_state_files: "files bare_state = [bare_record]"
  unfolding bare_state_def onDrop_settle_batch [OF sample_batches(2)]
  by (simp add: initial_state_def entries_of_def bare_response_def bare_record_def)

lemma scenario_state_files:
  "files scenario_state =
     records_from one_millisecond 0 (entries_of scenario_response)"
  unfolding scenario_state_def onDrop_settle_batch [OF sample_batches(1)]
  by (simp add: initial_state_def)

lemma error_step_none:
  "error st = None \<Longrightarrow> \<not> settles_in_failure ev \<Longrightarrow> error (step ev st) = None"
  by (cases ev)
    (auto simp: settles_in_failure_def onDrop_begin_def onDrop_settle_def clearFiles_def
       removeFile_def setSelectedFile_def setError_def split: sum.splits)

lemma error_run_none:
  "error st = None \<Longrightarrow> list_all (\<lambda>ev. \<not> settles_in_failure ev) evs \<Longrightarrow>
   error (run evs st) = None"
  by (induction evs arbitrary: st) (simp_all add: error_step_none)

text \<open>
  C5, amended. A submission that fails, in the request or while the response is turned
  into records, leaves the collection as it is when the request settles and shows the
  mapped message in place of whatever was shown before. One that succeeds appends the
  new records to the collection as it is then and leaves the error as it is then. The
  error is cleared when the submission starts, so after a success an error is shown
  only if the request of another submission settled in failure in the meantime; with
  nothing in between, no error is shown and the collection is the one from the start
  followed by the new records. The state holds one optional message, so never more
  than one.
\<close>

theorem onDrop_failure_or_success:
  "(\<forall>err. post (classify_request acceptedFiles) = Inl err \<longrightarrow>
      files (snd (onDrop post env acceptedFiles between st))
        = files (run between (onDrop_begin st)) \<and>
      error (snd (onDrop post env acceptedFiles between st)) = Some (catch_message err)) \<and>
   (\<forall>data err. post (classify_request acceptedFiles) = Inr data \<and> newFiles env data = Inl err \<longrightarrow>
      files (snd (onDrop post env acceptedFiles between st))
        = files (run between (onDrop_begin st)) \<and>
      error (snd (onDrop post env acceptedFiles between st)) = Some (catch_message err)) \<and>
   (\<forall>data new. post (classify_request acceptedFiles) = Inr data \<and> newFiles env data = Inr new \<longrightarrow>
      files (snd (onDrop post env acceptedFiles between st))
        = files (run between (onDrop_begin st)) @ new \<and>
      error (snd (onDrop post env acceptedFiles between st))
        = error (run between (onDrop_begin st))) \<and>
   (list_all (\<lambda>ev. \<not> settles_in_failure ev) between \<longrightarrow>
      error (run between (onDrop_begin st)) = None) \<and>
   (between = [] \<longrightarrow> files (run between (onDrop_begin st)) = files st) \<and>
   loading (snd (onDrop post env acceptedFiles between st)) = False \<and>
   selectedFile (snd (onDrop post env acceptedFiles between st))
     = selectedFile (run between (onDrop_begin st))"
proof -
  have start: "error (onDrop_begin st) = None" "files (onDrop_begin st) = files st"
    by (simp_all add: onDrop_begin_def)
  have quiet: "list_all (\<lambda>ev. \<not> settles_in_failure ev) between \<longrightarrow>
      error (run between (onDrop_begin st)) = None"
    using error_run_none [OF start(1)] by blast
  have first: "between = [] \<longrightarrow> files (run between (onDrop_begin st)) = files st"
    by (simp add: start)
  have settle: "(\<forall>err. post (classify_request acceptedFiles) = Inl err \<longrightarrow>
      files (snd (onDrop post env acceptedFiles between st))
        = files (run between (onDrop_begin st)) \<and>
      error (snd (onDrop post env acceptedFiles between st)) = Some (catch_message err)) \<and>
   (\<forall>data err. post (classify_request acceptedFiles) = Inr data \<and> newFiles env data = Inl err \<longrightarrow>
      files (snd (onDrop post env acceptedFiles between st))
        = files (run between (onDrop_begin st)) \<and>
      error (snd (onDrop post env acceptedFiles between st)) = Some (catch_message err)) \<and>
   (\<forall>data new. post (classify_request acceptedFiles) = Inr data \<and> newFiles env data = Inr new \<longrightarrow>
      files (snd (onDrop post env acceptedFiles between st))
        = files (run between (onDrop_begin st)) @ new \<and>
      error (snd (onDrop post env acceptedFiles between st))
        = error (run between (onDrop_begin st))) \<and>
   loading (snd (onDrop post env acceptedFiles between st)) = False \<and>
   selectedFile (snd (onDrop post env acceptedFiles between st))
     = selectedFile (run between (onDrop_begin st))"
    by (auto simp: onDrop_def onDrop_settle_def try_bind_def Let_def split: sum.splits)
  from settle quiet first show ?thesis by blast
qed

text \<open>
  From a state that shows an earlier error: a request answered with status 503, a
  response with a \<open>null\<close> entry, and the scenario's response, the last with nothing in
  between and with a removal in between.
\<close>

theorem onDrop_failure_or_success_witness:
  "error stale_state = Some ''stale'' \<and> files stale_state = [bare_record] \<and>
   files (snd (onDrop (\<lambda>req. Inl (http_error 503)) one_millisecond [small_pdf] [] stale_state))
     = [bare_record] \<and>
   error (snd (onDrop (\<lambda>req. Inl (http_error 503)) one_millisecond [small_pdf] [] stale_state))
     = Some server_message \<and>
   files (snd (onDrop (\<lambda>req. Inr null_entry_response) one_millisecond [small_pdf] []
     stale_state)) = [bare_record] \<and>
   error (snd (onDrop (\<lambda>req. Inr null_entry_response) one_millisecond [small_pdf] []
     stale_state))
     = Some (''Classification failed: Cannot read properties of null (reading ''
              @ quoted ''renamed'' @ '')'') \<and>
   files (snd (onDrop (\<lambda>req. Inr scenario_response) one_millisecond [small_pdf] [] stale_state))
     = bare_record # records_from one_millisecond 0 (entries_of scenario_response) \<and>
   error (snd (onDrop (\<lambda>req. Inr scenario_response) one_millisecond [small_pdf] [] stale_state))
     = None \<and>
   files (snd (onDrop (\<lambda>req. Inr scenario_response) one_millisecond [small_pdf]
     [Remove_file (file_id bare_record)] stale_state))
     = records_from one_millisecond 0 (entries_of scenario_response) \<and>
   error (snd (onDrop (\<lambda>req. Inr scenario_response) one_millisecond [small_pdf]
     [Remove_file (file_id bare_record)] stale_state)) = None"
proof -
  have st: "files stale_state = [bare_record]" "error stale_state = Some ''stale''"
    by (simp_all add: stale_state_def setError_def bare_state_files)
  have msg: "catch_message (http_error 503) = server_message"
    by (simp add: catch_message_def http_error_def)
  have new: "newFiles one_millisecond scenario_response =
      Inr (records_from one_millisecond 0 (entries_of scenario_response))"
    by (rule newFiles_batch) (rule sample_batches)
  have bad: "newFiles one_millisecond null_entry_response =
      Inl (TypeError (''Cannot read properties of null (reading '' @ quoted ''renamed'' @ '')''))"
    by (simp add: newFiles_def null_entry_response_def try_bind_def make_file_def)
  have bad_msg: "catch_message
      (TypeError (''Cannot read properties of null (reading '' @ quoted ''renamed'' @ '')''))
      = ''Classification failed: Cannot read properties of null (reading ''
          @ quoted ''renamed'' @ '')''"
    by (simp add: catch_message_def TypeError_def)
  have quiet: "list_all (\<lambda>ev. \<not> settles_in_failure ev) []"
    "list_all (\<lambda>ev. \<not> settles_in_failure ev) [Remove_file (file_id bare_record)]"
    by (simp_all add: settles_in_failure_def)
  have gap: "files (run [Remove_file (file_id bare_record)] (onDrop_begin stale_state)) = []"
    by (simp add: removeFile_def onDrop_begin_def st)
  note fail = onDrop_failure_or_success
    [of "\<lambda>req. Inl (http_error 503)" "[small_pdf]" one_millisecond "[]" stale_state]
  note thrown = onDrop_failure_or_success
    [of "\<lambda>req. Inr null_entry_response" "[small_pdf]" one_millisecond "[]" stale_state]
  note succ = onDrop_failure_or_success
    [of "\<lambda>req. Inr scenario_response" "[small_pdf]" one_millisecond "[]" stale_state]
  note late = onDrop_failure_or_success
    [of "\<lambda>req. Inr scenario_response" "[small_pdf]" one_millisecond
      "[Remove_file (file_id bare_record)]" stale_state]
  have a: "files (snd (onDrop (\<lambda>req. Inl (http_error 503)) one_millisecond [small_pdf] []
      stale_state)) = [bare_record] \<and>
    error (snd (onDrop (\<lambda>req. Inl (http_error 503)) one_millisecond [small_pdf] []
      stale_state)) = Some server_message"
    using fail st msg by simp
  have b: "files (snd (onDrop (\<lambda>req. Inr null_entry_response) one_millisecond [small_pdf] []
      stale_state)) = [bare_record] \<and>
    error (snd (onDrop (\<lambda>req. Inr null_entry_response) one_millisecond [small_pdf] []
      stale_state))
      = Some (''Classification failed: Cannot read properties of null (reading ''
              @ quoted ''renamed'' @ '')'')"
    using thrown st bad bad_msg by simp
  have c: "files (snd (onDrop (\<lambda>req. Inr scenario_response) one_millisecond [small_pdf] []
      stale_state))
      = bare_record # records_from one_millisecond 0 (entries_of scenario_response) \<and>
    error (snd (onDrop (\<lambda>req. Inr scenario_response) one_millisecond [small_pdf] []
      stale_state)) = None"
    using succ st new quiet(1) by simp
  have d: "files (snd (onDrop (\<lambda>req. Inr scenario_response) one_millisecond [small_pdf]
      [Remove_file (file_id bare_record)] stale_state))
      = records_from one_millisecond 0 (entries_of scenario_response) \<and>
    error (snd (onDrop (\<lambda>req. Inr scenario_response) one_millisecond [small_pdf]
      [Remove_file (file_id bare_record)] stale_state)) = None"
  proof -
    have e: "error (run [Remove_file (file_id bare_record)] (onDrop_begin stale_state)) = None"
      using late quiet(2) by blast
    show ?thesis
      using late [THEN conjunct2, THEN conjunct2, THEN conjunct1, rule_format,
          of scenario_response "records_from one_millisecond 0 (entries_of scenario_response)"]
        new gap e by simp
  qed
  from st a b c d show ?thesis by simp
qed

text \<open>
  The claim as stated fails when submissions overlap: a first submission starts, a second
  starts and its request is answered with status 503, then the first succeeds. Its
  records are appended, and the error of the second is still shown.
\<close>

theorem error_after_success_counterexample:
  "map originalName (files (snd (onDrop (\<lambda>req. Inr scenario_response) one_millisecond
      [small_pdf] [Drop_begin, Drop_settle later_millisecond (Inl (http_error 503))]
      initial_state))) = [''a.pdf'', ''b.png''] \<and>
   error (snd (onDrop (\<lambda>req. Inr scenario_response) one_millisecond
      [small_pdf] [Drop_begin, Drop_settle later_millisecond (Inl (http_error 503))]
      initial_state)) = Some server_message"
proof -
  have new: "newFiles one_millisecond scenario_response =
      Inr (records_from one_millisecond 0 (entries_of scenario_response))"
    by (rule newFiles_batch) (rule sample_batches)
  have msg: "catch_message (http_error 503) = server_message"
    by (simp add: catch_message_def http_error_def)
  have after: "snd (onDrop (\<lambda>req. Inr scenario_response) one_millisecond
      [small_pdf] [Drop_begin, Drop_settle later_millisecond (Inl (http_error 503))]
      initial_state)
      = \<lparr>files = records_from one_millisecond 0 (entries_of scenario_response),
         loading = False, error = Some server_message, selectedFile = None\<rparr>"
    by (simp add: onDrop_def Let_def onDrop_settle_def onDrop_begin_def try_bind_def new msg
          initial_state_def)
  show ?thesis
    unfolding after
    by (simp add: entries_of_def scenario_response_def record_of_def)
qed

subsection \<open>Removing a record\<close>

lemma filter_absent: "fileId \<notin> file_id ` set xs \<Longrightarrow> filter (\<lambda>f. file_id f \<noteq> fileId) xs = xs"
  by (induction xs) auto

lemma filter_present:
  "fileId \<in> file_id ` set xs \<Longrightarrow> length (filter (\<lambda>f. file_id f \<noteq> fileId) xs) < length xs"
  by (auto intro: length_filter_less)

text \<open>
  C9, amended. \<open>removeFile\<close> returns no value (\<open>undefined\<close>), whether or not the id is
  there. It changes the collection only, to the records whose id differs from the
  argument, in their order: for an id that is not present the state is unchanged; for an
  id that is present the collection gets shorter and no record with that id is left.
\<close>

theorem removeFile_effect:
  "fst (removeFile fileId st) = JUndefined \<and>
   snd (removeFile fileId st) = st\<lparr>files := filter (\<lambda>f. file_id f \<noteq> fileId) (files st)\<rparr> \<and>
   (fileId \<notin> file_id ` set (files st) \<longrightarrow> snd (removeFile fileId st) = st) \<and>
   (fileId \<in> file_id ` set (files st) \<longrightarrow>
      length (files (snd (removeFile fileId st))) < length (files st) \<and>
      fileId \<notin> file_id ` set (files (snd (removeFile fileId st))))"
  by (auto simp: removeFile_def filter_absent filter_present)

theorem removeFile_effect_witness:
  "Suc (file_id bare_record) \<notin> file_id ` set (files bare_state) \<and>
   snd (removeFile (Suc (file_id bare_record)) bare_state) = bare_state \<and>
   file_id bare_record \<in> file_id ` set (files bare_state) \<and>
   files (snd (removeFile (file_id bare_record) bare_state)) = [] \<and>
   fst (removeFile (file_id bare_record) bare_state) = JUndefined"
proof -
  have a: "Suc (file_id bare_record) \<notin> file_id ` set (files bare_state)"
    and p: "file_id bare_record \<in> file_id ` set (files bare_state)"
    by (simp_all add: bare_state_files)
  note eff = removeFile_effect [of "Suc (file_id bare_record)" bare_state]
  note eff2 = removeFile_effect [of "file_id bare_record" bare_state]
  have b: "snd (removeFile (Suc (file_id bare_record)) bare_state) = bare_state"
    using eff a by blast
  have "length (files (snd (removeFile (file_id bare_record) bare_state))) < length (files bare_state)"
    using eff2 p by blast
  then have c: "files (snd (removeFile (file_id bare_record) bare_state)) = []"
    by (simp add: bare_state_files)
  have d: "fst (removeFile (file_id bare_record) bare_state) = JUndefined"
    using eff2 by blast
  from a b p c d show ?thesis by simp
qed

text \<open>
  The claim as stated fails on the returned value: removing a present id does not return
  \<open>true\<close> (the value is not even truthy), and removing an absent id does not return
  \<open>false\<close>.
\<close>

theorem removeFile_returns_counterexample:
  "file_id bare_record \<in> file_id ` set (files bare_state) \<and>
   fst (removeFile (file_id bare_record) bare_state) \<noteq> JBool True \<and>
   \<not> truthy (fst (removeFile (file_id bare_record) bare_state)) \<and>
   Suc (file_id bare_record) \<notin> file_id ` set (files bare_state) \<and>
   fst (removeFile (Suc (file_id bare_record)) bare_state) \<noteq> JBool False"
  by (simp add: bare_state_files removeFile_def)

text \<open>
  C10. Removing an id twice gives the same state as removing it once: the removal keeps
  exactly the records whose id differs from the argument, in their order, so no record
  with that id is left after the first removal, however many there were.
\<close>

theorem removeFile_idempotent:
  "snd (removeFile fileId (snd (removeFile fileId st))) = snd (removeFile fileId st) \<and>
   files (snd (removeFile fileId st)) = filter (\<lambda>f. file_id f \<noteq> fileId) (files st) \<and>
   fileId \<notin> file_id ` set (files (snd (removeFile fileId st)))"
  by (auto simp: removeFile_def)

subsection \<open>Identifiers\<close>

lemma bit_length_bounds:
  "2 ^ k \<le> n \<Longrightarrow> n < 2 ^ Suc k \<Longrightarrow> bit_length n = Suc k"
proof (induction k arbitrary: n)
  case 0
  then have "n = 1" by simp
  then show ?case by (simp add: bit_length.simps)
next
  case (Suc k)
  have "(0::nat) < 2 ^ Suc k" by simp
  with Suc.prems(1) have pos: "n \<noteq> 0" by linarith
  have lo: "2 ^ k \<le> n div 2" using Suc.prems(1) by simp
  have hi: "n div 2 < 2 ^ Suc k" using Suc.prems(2) by simp
  have "bit_length (n div 2) = Suc k" using Suc.IH [OF lo hi] .
  then show ?case using pos by (subst bit_length.simps) simp
qed

lemma new_id_grid:
  assumes "2 ^ 40 \<le> now" and "now < 2 ^ 41" and "rnd < 2 ^ 53"
  shows "2 ^ 41 dvd new_id (now, rnd)"
proof -
  have lo: "(2::nat) ^ 93 \<le> now * 2 ^ 53 + rnd"
  proof -
    have "(2::nat) ^ 40 * 2 ^ 53 \<le> now * 2 ^ 53" using assms(1) by (rule mult_le_mono1)
    then show ?thesis by simp
  qed
  have hi: "now * 2 ^ 53 + rnd < 2 ^ Suc 93"
  proof -
    have "Suc now \<le> 2 ^ 41" using assms(2) by simp
    then have "Suc now * 2 ^ 53 \<le> 2 ^ 41 * 2 ^ 53" by (rule mult_le_mono1)
    moreover have "now * 2 ^ 53 + rnd < Suc now * 2 ^ 53" using assms(3) by simp
    ultimately show ?thesis by simp
  qed
  have "bit_length (now * 2 ^ 53 + rnd) = Suc 93"
    using lo hi by (rule bit_length_bounds)
  then show ?thesis
    by (simp add: new_id_def round53_def Let_def)
qed

lemma distinct_removeFile:
  "distinct (map file_id (files st)) \<Longrightarrow> distinct (map file_id (files (snd (removeFile fileId st))))"
  by (simp add: removeFile_def distinct_map_filter)

lemma distinct_clearFiles: "distinct (map file_id (files (clearFiles st)))"
  by (simp add: clearFiles_def)

lemma new_id_first: "new_id (1700000000000, 4503599627370496) = 15312238733064189999627370496"
proof -
  have "bit_length (1700000000000 * 2 ^ 53 + 4503599627370496) = Suc 93"
    by (rule bit_length_bounds) simp_all
  then show ?thesis
    by (simp add: new_id_def round53_def Let_def)
qed

lemma new_id_second: "new_id (1700000000000, 4503874505277440) = 15312238733064189999627370496"
proof -
  have "bit_length (1700000000000 * 2 ^ 53 + 4503874505277440) = Suc 93"
    by (rule bit_length_bounds) simp_all
  then show ?thesis
    by (simp add: new_id_def round53_def Let_def)
qed

lemma new_id_later:
  "new_id (1700000000001, 4503599627370496) = 15312238733073197198882111488"
proof -
  have "bit_length (1700000000001 * 2 ^ 53 + 4503599627370496) = Suc 93"
    by (rule bit_length_bounds) simp_all
  then show ?thesis
    by (simp add: new_id_def round53_def Let_def)
qed

lemma one_millisecond_draws:
  "one_millisecond 0 = (1700000000000, 4503599627370496)"
  "one_millisecond 1 = (1700000000000, 4503874505277440)"
  "one_millisecond (Suc 0) = (1700000000000, 4503874505277440)"
  "later_millisecond 0 = (1700000000001, 4503599627370496)"
  by (simp_all add: one_millisecond_def later_millisecond_def)

lemma scenario_files_explicit:
  "files scenario_state =
     [record_of (new_id (one_millisecond 0)) (entries_of scenario_response ! 0),
      record_of (new_id (one_millisecond 1)) (entries_of scenario_response ! 1)]"
  by (simp add: scenario_state_files entries_of_def scenario_response_def)

text \<open>
  C6. The claim does not hold of \<open>Date.now() + Math.random()\<close>: near 1.7e12 a double has
  twelve fraction bits, so the sum keeps one of 4096 values per millisecond. In the
  scenario's response, handled within one millisecond with the draws \<open>0.5\<close> and
  \<open>0.500030517578125\<close>, both records get the id \<open>1700000000000.5\<close>; the ids of the
  live collection are not distinct, and removing the first record by its id removes the
  second too.
\<close>

theorem ids_collide_within_millisecond:
  "one_millisecond 0 = (1700000000000, 4503599627370496) \<and>
   one_millisecond 1 = (1700000000000, 4503874505277440) \<and>
   snd (one_millisecond 0) \<noteq> snd (one_millisecond 1) \<and>
   snd (one_millisecond 0) < 2 ^ 53 \<and> snd (one_millisecond 1) < 2 ^ 53 \<and>
   map originalName (files scenario_state) = [''a.pdf'', ''b.png''] \<and>
   map file_id (files scenario_state) =
     [15312238733064189999627370496, 15312238733064189999627370496] \<and>
   \<not> distinct (map file_id (files scenario_state)) \<and>
   files (snd (removeFile (file_id (files scenario_state ! 0)) scenario_state)) = []"
proof -
  note env = one_millisecond_draws(1,2)
  have names: "map originalName (files scenario_state) = [''a.pdf'', ''b.png'']"
    by (simp add: scenario_files_explicit record_of_def entries_of_def scenario_response_def)
  have ids: "map file_id (files scenario_state) =
     [15312238733064189999627370496, 15312238733064189999627370496]"
    by (simp add: scenario_files_explicit record_of_def one_millisecond_draws new_id_first
          new_id_second)
  have rm: "files (snd (removeFile (file_id (files scenario_state ! 0)) scenario_state)) = []"
    by (simp add: removeFile_def scenario_files_explicit record_of_def one_millisecond_draws
          new_id_first new_id_second)
  from env names ids rm show ?thesis by simp
qed

subsection \<open>The previewed record\<close>

lemma two_records_state_explicit:
  "two_records_state =
     \<lparr>files = [bare_record, failed_record], loading = False, error = None,
      selectedFile = Some bare_record\<rparr>"
proof -
  have s1: "onDrop_settle one_millisecond (Inr bare_response) (onDrop_begin initial_state)
      = \<lparr>files = [bare_record], loading = False, error = None, selectedFile = None\<rparr>"
    unfolding onDrop_settle_batch [OF sample_batches(2)]
    by (simp add: onDrop_begin_def initial_state_def entries_of_def bare_response_def
          bare_record_def)
  have s2: "onDrop_settle later_millisecond (Inr failed_response)
      (onDrop_begin \<lparr>files = [bare_record], loading = False, error = None,
         selectedFile = None\<rparr>)
      = \<lparr>files = [bare_record, failed_record], loading = False, error = None,
         selectedFile = None\<rparr>"
    unfolding onDrop_settle_batch [OF sample_batches(3)]
    by (simp add: onDrop_begin_def entries_of_def failed_response_def failed_record_def)
  show ?thesis
    by (simp add: two_records_state_def s1 s2 setSelectedFile_def)
qed

lemma sample_ids:
  "file_id bare_record = 15312238733064189999627370496"
  "file_id failed_record = 15312238733073197198882111488"
  by (simp_all add: bare_record_def failed_record_def record_of_def one_millisecond_draws
        new_id_first new_id_later)

text \<open>
  C7, amended. \<open>removeFile\<close> leaves the preview as it is. The previewed record is held
  itself, not looked up, so after a removal it is still in the collection exactly when
  it was there before and its id is not the removed one; after the removal of the
  previewed record the preview still shows it.
\<close>

theorem removeFile_preview:
  "selectedFile (snd (removeFile fileId st)) = selectedFile st \<and>
   (\<forall>f. selectedFile st = Some f \<longrightarrow>
      (f \<in> set (files (snd (removeFile fileId st))) \<longleftrightarrow> f \<in> set (files st) \<and> file_id f \<noteq> fileId))"
  by (auto simp: removeFile_def)

text \<open>
  Two records with different ids, the first previewed: removing the second leaves the
  preview on a record of the collection.
\<close>

theorem removeFile_preview_witness:
  "selectedFile two_records_state = Some bare_record \<and>
   files two_records_state = [bare_record, failed_record] \<and>
   file_id failed_record \<noteq> file_id bare_record \<and>
   files (snd (removeFile (file_id failed_record) two_records_state)) = [bare_record] \<and>
   selectedFile (snd (removeFile (file_id failed_record) two_records_state))
     = Some bare_record \<and>
   bare_record \<in> set (files (snd (removeFile (file_id failed_record) two_records_state)))"
proof -
  have s: "selectedFile two_records_state = Some bare_record"
    and f: "files two_records_state = [bare_record, failed_record]"
    by (simp_all add: two_records_state_explicit)
  have ne: "file_id failed_record \<noteq> file_id bare_record"
    by (simp add: sample_ids)
  note pre = removeFile_preview [of "file_id failed_record" two_records_state]
  have k: "selectedFile (snd (removeFile (file_id failed_record) two_records_state))
     = Some bare_record"
    using pre s by simp
  have m: "bare_record \<in> set (files (snd (removeFile (file_id failed_record) two_records_state)))"
    using pre [THEN conjunct2, rule_format, OF s] f ne by simp
  have r: "files (snd (removeFile (file_id failed_record) two_records_state)) = [bare_record]"
    using ne by (simp add: removeFile_def f)
  from s f ne r k m show ?thesis by simp
qed

text \<open>
  The claim as stated fails: with a record previewed, removing that record leaves the
  preview holding a record that is no longer in the collection.
\<close>

theorem preview_dangles_counterexample:
  "selectedFile previewing_state = Some bare_record \<and>
   bare_record \<in> set (files previewing_state) \<and>
   selectedFile (snd (removeFile (file_id bare_record) previewing_state)) = Some bare_record \<and>
   bare_record \<notin> set (files (snd (removeFile (file_id bare_record) previewing_state)))"
  by (simp add: previewing_state_def setSelectedFile_def bare_state_files removeFile_def)

subsection \<open>Excluded files\<close>




subsection \<open>Export\<close>

lemma JSON_stringify_None: "(JSON_stringify v = None) = (v = JUndefined)"
  by (cases v) simp_all

lemma length_stringify_elems: "length (stringify_elems xs) = length xs"
  by (induction xs) simp_all

lemma nth_stringify_elems:
  "i < length xs \<Longrightarrow>
   stringify_elems xs ! i = (case JSON_stringify (xs ! i) of None \<Rightarrow> TNull | Some j \<Rightarrow> j)"
  by (induction xs arbitrary: i) (simp_all add: nth_Cons')






























end
